theory Spec2Isabelle
  imports Complex_Main "HOL-Library.Char_ord" "HOL-Library.Sublist"
begin

section \<open>Test functions and their results\<close>

text \<open>
  The schemas are built with the yup library. A custom rule is a test function attached
  to a field with \<^verbatim>\<open>this.test({name, test})\<close>. The functions of this repository
  return \<^verbatim>\<open>true\<close>, a \<^verbatim>\<open>yup.ValidationError\<close> carrying a message, or a value
  that is only read for its truthiness (\<^verbatim>\<open>undefined\<close> when the body falls off
  its end). The library turns the returned value into violations: a ValidationError is
  reported as it is, any other falsy value is reported with the message of the test
  itself, a truthy value reports nothing.
\<close>

datatype test_result = Truthy | Falsy | ValidationError string

text \<open>
  The message of a test that was registered without one: the library's default
  \<^verbatim>\<open>${path} is invalid\<close>, where an empty path prints as \<^verbatim>\<open>this\<close>.
\<close>

definition yup_default_message :: "string \<Rightarrow> string" where
  "yup_default_message path = (if path = [] then ''this'' else path) @ '' is invalid''"

fun handleResult :: "string \<Rightarrow> test_result \<Rightarrow> string list" where
  "handleResult message Truthy = []"
| "handleResult message Falsy = [message]"
| "handleResult message (ValidationError m) = [m]"

text \<open>
  What a test function of this repository can throw: the TypeError of reading a property
  (named here) of \<^verbatim>\<open>null\<close> or \<^verbatim>\<open>undefined\<close>. A test function that throws
  makes the validation reject with the thrown error, and no violation is reported.
\<close>

datatype thrown = CannotReadProperty string

fun runTest :: "string \<Rightarrow> thrown + test_result \<Rightarrow> thrown + string list" where
  "runTest message (Inl thrown) = Inl thrown"
| "runTest message (Inr r) = Inr (handleResult message r)"

text \<open>The context a test function receives: the path of the field and the parent object.\<close>

record 'p testCtx =
  path :: string
  parent :: 'p

section \<open>Constants\<close>

definition PROJECT_ONLY_TYPES :: "string list" where
  "PROJECT_ONLY_TYPES = [''GRPC'', ''TCP'', ''UDP'']"

definition PROJECT_VISIBILITY :: string where
  "PROJECT_VISIBILITY = ''Project''"

section \<open>Numbers\<close>

text \<open>
  A number field after the library's cast: a finite number (every finite double is a
  rational), an infinity, or NaN (what a value that is no number is cast to).
  \<^verbatim>\<open>None\<close> is an absent field (\<^verbatim>\<open>undefined\<close> or \<^verbatim>\<open>null\<close>).
\<close>

datatype number = Finite rat | PosInfinity | NegInfinity | NaN

fun js_gt :: "number \<Rightarrow> rat \<Rightarrow> bool" where
  "js_gt (Finite r) m = (m < r)"
| "js_gt PosInfinity m = True"
| "js_gt NegInfinity m = False"
| "js_gt NaN m = False"

fun js_lt :: "number \<Rightarrow> rat \<Rightarrow> bool" where
  "js_lt (Finite r) m = (r < m)"
| "js_lt PosInfinity m = False"
| "js_lt NegInfinity m = True"
| "js_lt NaN m = False"

text \<open>
  The rules of a chain \<^verbatim>\<open>yup.number().required().moreThan(a).lessThan(b)\<close>.
  The type check of \<^verbatim>\<open>yup.number()\<close> comes first and, when it fails, is the only
  rule reported. \<^verbatim>\<open>moreThan\<close> and \<^verbatim>\<open>lessThan\<close> pass on an absent value. With
  \<^verbatim>\<open>abortEarly: false\<close> every failing rule of the chain is reported, in order.
\<close>

datatype number_rule = TypeError | Required | MoreThan rat | LessThan rat

fun rule_holds :: "number option \<Rightarrow> number_rule \<Rightarrow> bool" where
  "rule_holds v TypeError = (v \<noteq> Some NaN)"
| "rule_holds v Required = (v \<noteq> None)"
| "rule_holds v (MoreThan m) = (case v of None \<Rightarrow> True | Some x \<Rightarrow> js_gt x m)"
| "rule_holds v (LessThan m) = (case v of None \<Rightarrow> True | Some x \<Rightarrow> js_lt x m)"

definition yup_number :: "number_rule list \<Rightarrow> number option \<Rightarrow> number_rule list" where
  "yup_number rules v =
     (if \<not> rule_holds v TypeError then [TypeError]
      else filter (\<lambda>r. \<not> rule_holds v r) rules)"

section \<open>Document shapes\<close>

text \<open>
  A value of the parsed document. An object or array is known by its reference only:
  two of them are the same value when they are the same object. Equality of \<open>jsval\<close>
  is the equality a \<^verbatim>\<open>Set\<close> keeps its members apart by; on the values a
  \<^verbatim>\<open>switch\<close> is given here it is strict equality.
\<close>

datatype jsval =
  JUndefined | JNull | JBool bool | JNumber number | JString string | JObject nat

record serviceObj =
  svc_basePath :: "string option"
  svc_port :: "number option"

text \<open>
  An element of \<^verbatim>\<open>endpoints\<close> that is an object, as \<^verbatim>\<open>endpointSchemaV0D2\<close>
  declares it. The name is kept as the value it is: a missing name is
  \<^verbatim>\<open>undefined\<close>, and \<^verbatim>\<open>null\<close> is another value.
\<close>

record endpoint =
  ep_name :: jsval
  ep_displayName :: "string option"
  ep_service :: "serviceObj option"
  ep_type :: "string option"
  ep_networkVisibilities :: "string list option"
  ep_schemaFilePath :: "string option"

section \<open>Custom validators\<close>

subsection \<open>checkEndpointNameUniqueness\<close>



subsection \<open>projectVisibilityOnly\<close>

text \<open>A value spliced into a template literal: \<^verbatim>\<open>undefined\<close> prints as its name.\<close>

fun template :: "string option \<Rightarrow> string" where
  "template (Some s) = s"
| "template None = ''undefined''"

text \<open>\<^verbatim>\<open>testCtx.path.split(".")[0] || "endpoint"\<close>\<close>

definition erroredEndpoint :: "string \<Rightarrow> string" where
  "erroredEndpoint p =
     (let first = takeWhile (\<lambda>c. c \<noteq> CHR ''.'') p
      in if first = [] then ''endpoint'' else first)"

definition projectVisibilityOnly ::
  "string list option \<Rightarrow> endpoint testCtx \<Rightarrow> test_result" where
  "projectVisibilityOnly visibility ctx =
     (let type = ep_type (parent ctx);
          isVisibilityProjectOnly =
            (case visibility of
               None \<Rightarrow> False
             | Some vs \<Rightarrow> length vs = 1 \<and> hd vs = PROJECT_VISIBILITY);
          isTypeProjectOnly =
            (case type of None \<Rightarrow> False | Some t \<Rightarrow> t \<in> set PROJECT_ONLY_TYPES)
      in if isTypeProjectOnly \<and> \<not> isVisibilityProjectOnly
         then ValidationError
           (''The '' @ erroredEndpoint (path ctx) @ '' is a type '' @ template type
            @ '' endpoint and can only have networkVisibility set to ''
            @ PROJECT_VISIBILITY)
         else Truthy)"

subsection \<open>schemaFileExists\<close>

text \<open>
  The file system as an existence check meets it: for a path, whether something is
  there, or the I/O error the check runs into (its message on the left).
\<close>

type_synonym filesystem = "string \<Rightarrow> string + bool"

text \<open>
  \<^verbatim>\<open>fs.existsSync\<close> never raises: when the check underneath fails, it swallows the
  error and answers \<^verbatim>\<open>false\<close>. Its result has a left side only so that the
  \<^verbatim>\<open>try\<close> around the call can be written down.
\<close>

definition fs_existsSync :: "filesystem \<Rightarrow> string \<Rightarrow> thrown + bool" where
  "fs_existsSync fs p = (case fs p of Inl error \<Rightarrow> Inr False | Inr there \<Rightarrow> Inr there)"

text \<open>
  \<^verbatim>\<open>path.join\<close> is a parameter. The \<^verbatim>\<open>try\<close> block returns
  \<^verbatim>\<open>hasFile || new yup.ValidationError(...)\<close>. The \<^verbatim>\<open>catch\<close> block builds a
  ValidationError ("Failed to check if schema file exists:") without returning or
  throwing it, so the function would fall off its end there and return
  \<^verbatim>\<open>undefined\<close>.
\<close>

definition schemaFileExists ::
  "(string \<Rightarrow> string \<Rightarrow> string) \<Rightarrow> filesystem \<Rightarrow> string \<Rightarrow> string option
     \<Rightarrow> thrown + test_result" where
  "schemaFileExists join fs srcDir value =
     (case value of
        None \<Rightarrow> Inr Truthy
      | Some v \<Rightarrow>
          if v = [] then Inr Truthy
          else
            (let schemaFilePath = join srcDir v
             in case fs_existsSync fs schemaFilePath of
                  Inr hasFile \<Rightarrow>
                    if hasFile then Inr Truthy
                    else Inr (ValidationError
                      (''Schema file does not exist at the given path '' @ v @ ''.''))
                | Inl error \<Rightarrow> Inr Falsy))"

section \<open>Regular expressions\<close>

text \<open>
  The patterns of the identifier grammars use character classes, sequence, alternation,
  \<^verbatim>\<open>?\<close>, \<^verbatim>\<open>+\<close> and \<^verbatim>\<open>*\<close>, anchored at both ends, without flags. For such a
  pattern \<^verbatim>\<open>RegExp.test\<close> decides membership of the whole string in the language of
  the pattern; \<open>regexp_test\<close> decides it by taking the derivative of the pattern by each
  character in turn. A class is a list of inclusive character ranges.
\<close>

datatype regexp =
  Fail
  | Empty
  | Class "(char \<times> char) list"
  | Cat regexp regexp
  | Or regexp regexp
  | Rep regexp

definition in_class :: "(char \<times> char) list \<Rightarrow> char \<Rightarrow> bool" where
  "in_class ranges c = list_ex (\<lambda>(lo, hi). lo \<le> c \<and> c \<le> hi) ranges"

fun nullable :: "regexp \<Rightarrow> bool" where
  "nullable Fail = False"
| "nullable Empty = True"
| "nullable (Class ranges) = False"
| "nullable (Cat r s) = (nullable r \<and> nullable s)"
| "nullable (Or r s) = (nullable r \<or> nullable s)"
| "nullable (Rep r) = True"

fun deriv :: "char \<Rightarrow> regexp \<Rightarrow> regexp" where
  "deriv c Fail = Fail"
| "deriv c Empty = Fail"
| "deriv c (Class ranges) = (if in_class ranges c then Empty else Fail)"
| "deriv c (Cat r s) =
     (if nullable r then Or (Cat (deriv c r) s) (deriv c s) else Cat (deriv c r) s)"
| "deriv c (Or r s) = Or (deriv c r) (deriv c s)"
| "deriv c (Rep r) = Cat (deriv c r) (Rep r)"

fun regexp_test :: "regexp \<Rightarrow> string \<Rightarrow> bool" where
  "regexp_test r [] = nullable r"
| "regexp_test r (c # cs) = regexp_test (deriv c r) cs"

text \<open>The pattern of a literal text, \<^verbatim>\<open>r+\<close> and \<^verbatim>\<open>r?\<close>.\<close>

fun lit :: "string \<Rightarrow> regexp" where
  "lit [] = Empty"
| "lit (c # cs) = Cat (Class [(c, c)]) (lit cs)"

definition plus :: "regexp \<Rightarrow> regexp" where
  "plus r = Cat r (Rep r)"

definition opt :: "regexp \<Rightarrow> regexp" where
  "opt r = Or r Empty"

text \<open>The language of a pattern, as a set of strings.\<close>

inductive_set star :: "string set \<Rightarrow> string set" for L :: "string set" where
  star_empty: "[] \<in> star L"
| star_more: "u \<in> L \<Longrightarrow> v \<in> star L \<Longrightarrow> u @ v \<in> star L"

fun lang :: "regexp \<Rightarrow> string set" where
  "lang Fail = {}"
| "lang Empty = {[]}"
| "lang (Class ranges) = {[c] | c. in_class ranges c}"
| "lang (Cat r s) = {u @ v | u v. u \<in> lang r \<and> v \<in> lang s}"
| "lang (Or r s) = lang r \<union> lang s"
| "lang (Rep r) = star (lang r)"

subsection \<open>The character classes of the patterns\<close>

text \<open>\<^verbatim>\<open>[a-zA-Z0-9_-]\<close>\<close>

definition token_class :: "(char \<times> char) list" where
  "token_class =
     [(CHR ''a'', CHR ''z''), (CHR ''A'', CHR ''Z''), (CHR ''0'', CHR ''9''),
      (CHR ''_'', CHR ''_''), (CHR ''-'', CHR ''-'')]"

text \<open>\<^verbatim>\<open>\d\<close>\<close>

definition digit_class :: "(char \<times> char) list" where
  "digit_class = [(CHR ''0'', CHR ''9'')]"

text \<open>
  \<^verbatim>\<open>\s\<close>, within the characters below 256: tab, line feed, vertical tab, form feed,
  carriage return, space and the no-break space. (The white space beyond 255 that
  \<^verbatim>\<open>\s\<close> also matches is not a \<open>char\<close>.)
\<close>

definition space_class :: "(char \<times> char) list" where
  "space_class = [(CHR 0x09, CHR 0x0D), (CHR '' '', CHR '' ''), (CHR 0xA0, CHR 0xA0)]"

text \<open>\<^verbatim>\<open>[a-zA-Z0-9\s_.-]\<close>\<close>

definition thirdparty_name_class :: "(char \<times> char) list" where
  "thirdparty_name_class =
     [(CHR ''a'', CHR ''z''), (CHR ''A'', CHR ''Z''), (CHR ''0'', CHR ''9'')] @ space_class
     @ [(CHR ''_'', CHR ''_''), (CHR ''.'', CHR ''.''), (CHR ''-'', CHR ''-'')]"

text \<open>\<^verbatim>\<open>(PUBLIC|PROJECT|ORGANIZATION)\<close>\<close>

definition visibility_regexp :: regexp where
  "visibility_regexp = Or (lit ''PUBLIC'') (Or (lit ''PROJECT'') (lit ''ORGANIZATION''))"

subsection \<open>The patterns of validateServiceName and validateResourceRef\<close>

text \<open>
  \<^verbatim>\<open>^choreo:\/\/\/T\/T\/T\/T\/v\d+(\.\d+)?\/(PUBLIC|PROJECT|ORGANIZATION)$\<close> with
  \<^verbatim>\<open>T = [a-zA-Z0-9_-]+\<close>
\<close>

definition choreoSvcRefNameRegex :: regexp where
  "choreoSvcRefNameRegex =
     Cat (lit ''choreo:///'')
    (Cat (plus (Class token_class)) (Cat (lit ''/'')
    (Cat (plus (Class token_class)) (Cat (lit ''/'')
    (Cat (plus (Class token_class)) (Cat (lit ''/'')
    (Cat (plus (Class token_class)) (Cat (lit ''/'')
    (Cat (lit ''v'') (Cat (plus (Class digit_class))
    (Cat (opt (Cat (lit ''.'') (plus (Class digit_class))))
    (Cat (lit ''/'') visibility_regexp))))))))))))"

text \<open>\<^verbatim>\<open>^thirdparty:([a-zA-Z0-9\s_.-]+)\/([vV]\d+(\.\d+)*)$\<close>\<close>

definition thirdPartySvcRefNameRegex :: regexp where
  "thirdPartySvcRefNameRegex =
     Cat (lit ''thirdparty:'')
    (Cat (plus (Class thirdparty_name_class))
    (Cat (lit ''/'')
    (Cat (Class [(CHR ''v'', CHR ''v''), (CHR ''V'', CHR ''V'')])
    (Cat (plus (Class digit_class))
         (Rep (Cat (lit ''.'') (plus (Class digit_class))))))))"

text \<open>\<^verbatim>\<open>^database:(([a-zA-Z0-9_-]+)\/)?([a-zA-Z0-9_-]+)$\<close>\<close>

definition dbSvcRefNameRegex :: regexp where
  "dbSvcRefNameRegex =
     Cat (lit ''database:'')
    (Cat (opt (Cat (plus (Class token_class)) (lit ''/'')))
         (plus (Class token_class)))"

text \<open>
  \<^verbatim>\<open>^(service:)?(\/(T)\/)?(T)\/([vV]?\d+(\.\d+)*)(\/(T))?(\/(PUBLIC|PROJECT|ORGANIZATION))?$\<close>
\<close>

definition svcRefNameRegex :: regexp where
  "svcRefNameRegex =
     Cat (opt (lit ''service:''))
    (Cat (opt (Cat (lit ''/'') (Cat (plus (Class token_class)) (lit ''/''))))
    (Cat (plus (Class token_class))
    (Cat (lit ''/'')
    (Cat (opt (Class [(CHR ''v'', CHR ''v''), (CHR ''V'', CHR ''V'')]))
    (Cat (plus (Class digit_class))
    (Cat (Rep (Cat (lit ''.'') (plus (Class digit_class))))
    (Cat (opt (Cat (lit ''/'') (plus (Class token_class))))
         (opt (Cat (lit ''/'') visibility_regexp)))))))))"

subsection \<open>validateServiceName\<close>

text \<open>
  The value is a string (the test belongs to \<^verbatim>\<open>yup.string()\<close>);
  \<^verbatim>\<open>value.startsWith(p)\<close> is \<open>prefix p value\<close>, and
  \<^verbatim>\<open>regex.test(value) || new yup.ValidationError(m)\<close> is \<open>test_or\<close>.
\<close>

definition test_or :: "regexp \<Rightarrow> string \<Rightarrow> string \<Rightarrow> test_result" where
  "test_or regex value message =
     (if regexp_test regex value then Truthy else ValidationError message)"

definition thirdparty_message :: "string \<Rightarrow> string" where
  "thirdparty_message p =
     p @ '' has an invalid service identifier. ''
     @ ''Use the format thirdparty:<service_name>/<version>, ''
     @ ''allowing only alphanumeric characters, periods (.), underscores (_), hyphens (-), and slashes (/) after thirdparty:.''"

definition database_message :: "string \<Rightarrow> string" where
  "database_message p =
     p @ '' has an invalid service identifier. ''
     @ ''Use the format database:[<serverName>/]<databaseName> where optional fields are in brackets, ''
     @ ''allowing only alphanumeric characters, underscores (_), hyphens (-), and slashes (/) after database:.''"

definition validateServiceName :: "string \<Rightarrow> 'p testCtx \<Rightarrow> test_result" where
  "validateServiceName value ctx =
     (if prefix ''choreo:///'' value
      then test_or choreoSvcRefNameRegex value
             (path ctx @ '' has an invalid service identifier. ''
              @ ''Use the format choreo:///<org-handle>/<project-handle>/<component-handle>/<endpoint-identifier>/<major-version>/<network-visibility>'')
      else if prefix ''thirdparty:'' value
      then test_or thirdPartySvcRefNameRegex value (thirdparty_message (path ctx))
      else if prefix ''database:'' value
      then test_or dbSvcRefNameRegex value (database_message (path ctx))
      else ValidationError
             (path ctx @ '' has an invalid service identifier. It can only contain choreo, thirdparty, or database types.''))"

subsection \<open>validateResourceRef\<close>

definition validateResourceRef :: "string \<Rightarrow> 'p testCtx \<Rightarrow> test_result" where
  "validateResourceRef value ctx =
     (if prefix ''service:'' value
      then test_or svcRefNameRegex value
             (path ctx @ '' has an invalid service identifier. ''
              @ ''Use the format [service:][/<project-handle>/]<component-handle>/<major-version>[/<endpoint-handle>][/<network-visibility>] where optional fields are specified in brackets.'')
      else if prefix ''thirdparty:'' value
      then test_or thirdPartySvcRefNameRegex value (thirdparty_message (path ctx))
      else if prefix ''database:'' value
      then test_or dbSvcRefNameRegex value (database_message (path ctx))
      else test_or svcRefNameRegex value
             (path ctx @ '' has an invalid service identifier. ''
              @ ''For services, use [service:][/<project-handle>/]<component-handle>/<major-version>[/<endpoint-handle>][/<network-visibility>]. ''
              @ ''For databases, use database:[<serverName>/]<databaseName>. ''
              @ ''For third-party services, use thirdparty:<service_name>/<version>. ''
              @ ''Optional fields are specified in brackets.''))"


section \<open>Environment variables\<close>

text \<open>
  An entry of \<^verbatim>\<open>env\<close> as the object-level test receives it, after the cast of its
  declared fields: \<^verbatim>\<open>None\<close> is \<^verbatim>\<open>undefined\<close> or \<^verbatim>\<open>null\<close>.
\<close>

record ref =
  ref_name :: "string option"
  ref_key :: "string option"

record configForm =
  cf_displayName :: "string option"
  cf_required :: "bool option"
  cf_type :: "string option"

record valueFrom =
  vf_connectionRef :: "ref option"
  vf_configGroupRef :: "ref option"
  vf_configForm :: "configForm option"

record envVariable =
  env_name :: "string option"
  env_value :: "string option"
  env_valueFrom :: "valueFrom option"

text \<open>Truthiness: a string is truthy unless it is empty, an object always is.\<close>

fun truthy_string :: "string option \<Rightarrow> bool" where
  "truthy_string None = False"
| "truthy_string (Some s) = (s \<noteq> [])"

fun truthy_object :: "'a option \<Rightarrow> bool" where
  "truthy_object None = False"
| "truthy_object (Some obj) = True"

text \<open>
  The \<^verbatim>\<open>oneOfRequired\<close> tests. The function returns the value of the
  \<^verbatim>\<open>||\<close> chain, which is read for its truthiness only; \<^verbatim>\<open>a?.b\<close> is
  \<^verbatim>\<open>Option.bind\<close>.
\<close>

definition envVariableSchemaV0D1_message :: string where
  "envVariableSchemaV0D1_message =
     ''One of value, connectionRef or configGroupRef must be provided''"

definition envVariableSchemaV0D1_oneOfRequired :: "envVariable option \<Rightarrow> test_result" where
  "envVariableSchemaV0D1_oneOfRequired envVariable =
     (if truthy_string (Option.bind envVariable env_value)
         \<or> truthy_object (Option.bind (Option.bind envVariable env_valueFrom) vf_configGroupRef)
         \<or> truthy_object (Option.bind (Option.bind envVariable env_valueFrom) vf_connectionRef)
      then Truthy else Falsy)"

definition envVariableSchemaV0D2_message :: string where
  "envVariableSchemaV0D2_message =
     ''One of value, connectionRef, configGroupRef  or configForm must be provided''"

definition envVariableSchemaV0D2_oneOfRequired :: "envVariable option \<Rightarrow> test_result" where
  "envVariableSchemaV0D2_oneOfRequired envVariable =
     (if truthy_string (Option.bind envVariable env_value)
         \<or> truthy_object (Option.bind (Option.bind envVariable env_valueFrom) vf_configGroupRef)
         \<or> truthy_object (Option.bind (Option.bind envVariable env_valueFrom) vf_connectionRef)
         \<or> truthy_object (Option.bind (Option.bind envVariable env_valueFrom) vf_configForm)
      then Truthy else Falsy)"

text \<open>
  The number of sources an entry names, in the words of the specification: a value, a
  connectionRef, a configGroupRef and, when \<open>withForm\<close> is set, a configForm.
\<close>

definition sources_present :: "bool \<Rightarrow> envVariable \<Rightarrow> nat" where
  "sources_present withForm e =
     (if truthy_string (env_value e) then 1 else 0)
     + (if truthy_object (Option.bind (env_valueFrom e) vf_connectionRef) then 1 else 0)
     + (if truthy_object (Option.bind (env_valueFrom e) vf_configGroupRef) then 1 else 0)
     + (if withForm \<and> truthy_object (Option.bind (env_valueFrom e) vf_configForm)
        then 1 else 0)"

text \<open>The entries of the specification's examples.\<close>

definition env_value_and_connectionRef :: envVariable where
  "env_value_and_connectionRef =
     \<lparr>env_name = Some ''X'', env_value = Some ''1'',
      env_valueFrom = Some
        \<lparr>vf_connectionRef = Some \<lparr>ref_name = Some ''a'', ref_key = Some ''b''\<rparr>,
         vf_configGroupRef = None, vf_configForm = None\<rparr>\<rparr>"

definition env_nothing_set :: envVariable where
  "env_nothing_set = \<lparr>env_name = Some ''X'', env_value = None, env_valueFrom = None\<rparr>"

definition env_value_only :: envVariable where
  "env_value_only = \<lparr>env_name = Some ''X'', env_value = Some ''1'', env_valueFrom = None\<rparr>"

section \<open>The entry point: dispatch and error report\<close>

text \<open>
  A thrown error: its name, its message and, for a \<^verbatim>\<open>yup.ValidationError\<close>, the
  list \<^verbatim>\<open>errors\<close> of violation messages (\<^verbatim>\<open>undefined\<close> on a plain Error).
\<close>

record failure =
  err_name :: string
  err_message :: string
  err_errors :: "string list option"

definition Error :: "string \<Rightarrow> failure" where
  "Error message = \<lparr>err_name = ''Error'', err_message = message, err_errors = None\<rparr>"

text \<open>The string an error is converted to when it is appended to a string.\<close>

definition toString :: "failure \<Rightarrow> string" where
  "toString err =
     (if err_name err = [] then err_message err
      else if err_message err = [] then err_name err
      else err_name err @ '': '' @ err_message err)"

fun digits :: "nat \<Rightarrow> string" where
  "digits n =
     (if n < 10 then [char_of (48 + n)]
      else digits (n div 10) @ [char_of (48 + n mod 10)])"

text \<open>The error a rejected \<^verbatim>\<open>validate\<close> call carries.\<close>

definition yup_ValidationError :: "string list \<Rightarrow> failure" where
  "yup_ValidationError errors =
     \<lparr>err_name = ''ValidationError'',
      err_message =
        (if length errors > 1 then digits (length errors) @ '' errors occurred''
         else concat (take 1 errors)),
      err_errors = Some errors\<rparr>"

text \<open>
  The module \<^verbatim>\<open>./enums\<close> is not part of the sources at hand: its two tables are
  parameters.
\<close>

record errCodes =
  USER_ERROR :: string
  INTERNAL_ERROR :: string

record sourceConfigFileTypes =
  COMPONENT_YAML :: string
  COMPONENT_CONFIG_YAML :: string
  ENDPOINT_YAML :: string

definition olderSrcConfigMessage :: string where
  "olderSrcConfigMessage =
     ''Older Source Config Detected: You are using an older version of the source configuration. Please update to the latest version to take advantage of new features.''"

definition newline :: char where
  "newline = CHR 0x0A"

definition constructValidationErrorMessage :: "errCodes \<Rightarrow> failure \<Rightarrow> string \<Rightarrow> string" where
  "constructValidationErrorMessage codes err fileType =
     (let internal = INTERNAL_ERROR codes @ '' Failed to validate '' @ fileType
                       @ '', something went wrong:'' @ toString err
      in case err_errors err of
           None \<Rightarrow> internal
         | Some errors \<Rightarrow>
             if length errors = 0 then internal
             else
               (let errorMsg = USER_ERROR codes @ '' '' @ fileType @ '' validation failed: '';
                    errorList =
                      (if length errors = 1 then hd errors
                       else concat (map (\<lambda>e. newline # ''- '' @ e) errors))
                in errorMsg @ errorList))"

text \<open>
  The parsed document \<^verbatim>\<open>srcConfigYamlFile\<close>, an object; the dispatch reads its
  \<^verbatim>\<open>schemaVersion\<close> only, the other fields are the extension of the record.
\<close>

record document =
  schemaVersion :: jsval

text \<open>
  The schemas this module imports from \<^verbatim>\<open>./schemas\<close>. A schema applied to the
  source directory and a document gives the violations it collects with
  \<^verbatim>\<open>abortEarly: false\<close>, or the error a test function threw.
\<close>

datatype schema_id =
  ComponentYamlSchemaV1D1 | ComponentYamlSchemaV1D0 | EndpointYamlSchemaV0D1
  | ComponentConfigYamlSchemaV1beta1

type_synonym 'd schemas = "schema_id \<Rightarrow> string \<Rightarrow> 'd \<Rightarrow> failure + string list"

text \<open>What a run does besides returning: the schemas it runs and the warnings it emits.\<close>

datatype event = Validated schema_id | Warning string

text \<open>\<^verbatim>\<open>await schema(sourceRootDir).validate(srcConfigYamlFile, {abortEarly: false})\<close>\<close>

definition validate ::
  "'d schemas \<Rightarrow> schema_id \<Rightarrow> string \<Rightarrow> 'd \<Rightarrow> event list \<times> (failure + unit)" where
  "validate schemas sid sourceRootDir srcConfigYamlFile =
     ([Validated sid],
      case schemas sid sourceRootDir srcConfigYamlFile of
        Inl thrown \<Rightarrow> Inl thrown
      | Inr [] \<Rightarrow> Inr ()
      | Inr (e # es) \<Rightarrow> Inl (yup_ValidationError (e # es)))"

text \<open>The \<^verbatim>\<open>switch\<close> compares with strict equality: only the numbers 1 and 1.1 match.\<close>

definition validateComponentYaml ::
  "'d schemas \<Rightarrow> string \<Rightarrow> 'd \<Rightarrow> jsval \<Rightarrow> event list \<times> (failure + unit)" where
  "validateComponentYaml schemas sourceRootDir srcConfigYamlFile version =
     (if version = JNumber (Finite 1)
      then validate schemas ComponentYamlSchemaV1D0 sourceRootDir srcConfigYamlFile
      else if version = JNumber (Finite (11 / 10))
      then validate schemas ComponentYamlSchemaV1D1 sourceRootDir srcConfigYamlFile
      else ([], Inl (Error ''SchemaVersion must be one of the following values: 1.0, 1.1'')))"

definition warning_then ::
  "string \<Rightarrow> event list \<times> (failure + unit) \<Rightarrow> event list \<times> (failure + unit)" where
  "warning_then message run = (Warning message # fst run, snd run)"

definition validateSourceConfigFile ::
  "errCodes \<Rightarrow> sourceConfigFileTypes \<Rightarrow> ('a document_scheme) schemas \<Rightarrow> string \<Rightarrow> string
     \<Rightarrow> 'a document_scheme \<Rightarrow> event list \<times> (string + unit)" where
  "validateSourceConfigFile codes types schemas sourceRootDir fileType srcConfigYamlFile =
     (let run =
            (if fileType = COMPONENT_YAML types
             then validateComponentYaml schemas sourceRootDir srcConfigYamlFile
                    (schemaVersion srcConfigYamlFile)
             else if fileType = COMPONENT_CONFIG_YAML types
             then warning_then olderSrcConfigMessage
                    (validate schemas ComponentConfigYamlSchemaV1beta1 sourceRootDir
                       srcConfigYamlFile)
             else if fileType = ENDPOINT_YAML types
             then warning_then olderSrcConfigMessage
                    (validate schemas EndpointYamlSchemaV0D1 sourceRootDir srcConfigYamlFile)
             else ([], Inl (Error ([CHR 0x27] @ fileType @ [CHR 0x27]
                                   @ '' is not a valid source config file type''))))
      in (fst run,
          case snd run of
            Inr done \<Rightarrow> Inr done
          | Inl err \<Rightarrow> Inl (constructValidationErrorMessage codes err fileType)))"

text \<open>\<^verbatim>\<open>s.split(c)\<close> for a one-character separator.\<close>

fun split_on :: "char \<Rightarrow> string \<Rightarrow> string list" where
  "split_on c [] = [[]]"
| "split_on c (x # xs) =
     (if x = c then [] # split_on c xs
      else (x # hd (split_on c xs)) # tl (split_on c xs))"

section \<open>Schemas\<close>

text \<open>\<^verbatim>\<open>port\<close> of \<^verbatim>\<open>serviceSchema\<close> and of \<^verbatim>\<open>endpointSchemaV0D1\<close>.\<close>

definition serviceSchema_port :: "number option \<Rightarrow> number_rule list" where
  "serviceSchema_port = yup_number [Required, MoreThan 1000, LessThan 65535]"

definition endpointSchemaV0D1_port :: "number option \<Rightarrow> number_rule list" where
  "endpointSchemaV0D1_port = yup_number [Required, MoreThan 1000, LessThan 65535]"

section \<open>The third-party grammar, spelled out\<close>

definition is_digit :: "char \<Rightarrow> bool" where
  "is_digit c \<longleftrightarrow> CHR ''0'' \<le> c \<and> c \<le> CHR ''9''"

definition is_alnum :: "char \<Rightarrow> bool" where
  "is_alnum c \<longleftrightarrow>
     (CHR ''a'' \<le> c \<and> c \<le> CHR ''z'') \<or> (CHR ''A'' \<le> c \<and> c \<le> CHR ''Z'') \<or> is_digit c"

text \<open>Tab to carriage return, the space and the no-break space.\<close>

definition is_white_space :: "char \<Rightarrow> bool" where
  "is_white_space c \<longleftrightarrow> (CHR 0x09 \<le> c \<and> c \<le> CHR 0x0D) \<or> c = CHR '' '' \<or> c = CHR 0xA0"

text \<open>
  A third-party reference: the prefix, a non-empty name of alphanumerics, white space,
  underscores, periods and hyphens, a slash, \<open>v\<close> or \<open>V\<close>, a non-empty run of digits,
  and any number of groups of a period and a non-empty run of digits.
\<close>

definition thirdparty_reference :: "string \<Rightarrow> bool" where
  "thirdparty_reference s \<longleftrightarrow>
     (\<exists>name v d groups.
        s = ''thirdparty:'' @ name @ ''/'' @ [v] @ d
            @ concat (map (\<lambda>g. CHR ''.'' # g) groups) \<and>
        name \<noteq> [] \<and>
        (\<forall>c \<in> set name.
           is_alnum c \<or> is_white_space c \<or> c = CHR ''_'' \<or> c = CHR ''.'' \<or> c = CHR ''-'') \<and>
        (v = CHR ''v'' \<or> v = CHR ''V'') \<and>
        d \<noteq> [] \<and> (\<forall>c \<in> set d. is_digit c) \<and>
        (\<forall>g \<in> set groups. g \<noteq> [] \<and> (\<forall>c \<in> set g. is_digit c)))"

text \<open>
  The grammar as the specification writes it,
  \<^verbatim>\<open>thirdparty:[A-Za-z0-9 _.\-]+/[vV]\d+(\.\d+)*\<close>: of white space, the name
  admits the space only.
\<close>

definition thirdparty_grammar_of_spec :: regexp where
  "thirdparty_grammar_of_spec =
     Cat (lit ''thirdparty:'')
    (Cat (plus (Class [(CHR ''A'', CHR ''Z''), (CHR ''a'', CHR ''z''), (CHR ''0'', CHR ''9''),
                       (CHR '' '', CHR '' ''), (CHR ''_'', CHR ''_''), (CHR ''.'', CHR ''.''),
                       (CHR ''-'', CHR ''-'')]))
    (Cat (lit ''/'')
    (Cat (Class [(CHR ''v'', CHR ''v''), (CHR ''V'', CHR ''V'')])
    (Cat (plus (Class digit_class))
         (Rep (Cat (lit ''.'') (plus (Class digit_class))))))))"

text \<open>A reference whose name holds a tab.\<close>

definition thirdparty_with_tab :: string where
  "thirdparty_with_tab = ''thirdparty:a'' @ [CHR 0x09] @ ''b/v1''"




definition endpoint_of_type :: "string \<Rightarrow> string list \<Rightarrow> endpoint" where
  "endpoint_of_type t vs =
     \<lparr>ep_name = JString ''api'', ep_displayName = None, ep_service = None, ep_type = Some t,
      ep_networkVisibilities = Some vs, ep_schemaFilePath = None\<rparr>"


section \<open>Properties\<close>

subsection \<open>The matcher decides the language of a pattern\<close>

lemma nullable_lang: "nullable r \<longleftrightarrow> [] \<in> lang r"
proof (induction r)
  case (Rep r)
  show ?case by (simp add: star_empty)
qed auto

lemma star_Cons_split:
  "x \<in> star L \<Longrightarrow> x = c # w \<Longrightarrow> \<exists>u v. w = u @ v \<and> c # u \<in> L \<and> v \<in> star L"
proof (induction arbitrary: w rule: star.induct)
  case star_empty
  then show ?case by simp
next
  case (star_more u v)
  show ?case
  proof (cases u)
    case Nil
    with star_more show ?thesis by simp
  next
    case (Cons a u')
    with star_more have "w = u' @ v" and "c # u' \<in> L" by simp_all
    with star_more show ?thesis by blast
  qed
qed

lemma star_Cons:
  "c # w \<in> star L \<longleftrightarrow> (\<exists>u v. w = u @ v \<and> c # u \<in> L \<and> v \<in> star L)"
proof
  assume "c # w \<in> star L"
  then show "\<exists>u v. w = u @ v \<and> c # u \<in> L \<and> v \<in> star L"
    by (rule star_Cons_split) simp
next
  assume "\<exists>u v. w = u @ v \<and> c # u \<in> L \<and> v \<in> star L"
  then obtain u v where "w = u @ v" "c # u \<in> L" "v \<in> star L" by blast
  then have "(c # u) @ v \<in> star L" by (intro star_more)
  with \<open>w = u @ v\<close> show "c # w \<in> star L" by simp
qed

lemma lang_deriv: "w \<in> lang (deriv c r) \<longleftrightarrow> c # w \<in> lang r"
proof (induction r arbitrary: w)
  case (Cat r s)
  then show ?case
    by (auto simp: nullable_lang Cons_eq_append_conv)
next
  case (Rep r)
  then show ?case
    by (auto simp: star_Cons)
qed auto

lemma regexp_test_lang: "regexp_test r s \<longleftrightarrow> s \<in> lang r"
  by (induction s arbitrary: r) (simp_all add: nullable_lang lang_deriv)

subsection \<open>The language of the third-party pattern\<close>

lemma in_class_single: "in_class [(a, a)] c \<longleftrightarrow> c = a"
proof -
  have "in_class [(a, a)] c \<longleftrightarrow> a \<le> c \<and> c \<le> a"
    by (simp add: in_class_def)
  also have "\<dots> \<longleftrightarrow> c = a"
    using order.eq_iff [of a c] by blast
  finally show ?thesis .
qed

lemma lang_lit: "lang (lit s) = {s}"
  by (induction s) (auto simp: in_class_single)

lemma star_class: "star {[c] | c. P c} = {w. \<forall>c \<in> set w. P c}"
proof (intro set_eqI iffI)
  fix w assume "w \<in> star {[c] | c. P c}"
  then show "w \<in> {w. \<forall>c \<in> set w. P c}"
    by (induction rule: star.induct) auto
next
  fix w assume "w \<in> {w. \<forall>c \<in> set w. P c}"
  then show "w \<in> star {[c] | c. P c}"
  proof (induction w)
    case Nil
    show ?case by (rule star_empty)
  next
    case (Cons a w)
    then have "[a] \<in> {[c] | c. P c}" and "w \<in> star {[c] | c. P c}" by auto
    then have "[a] @ w \<in> star {[c] | c. P c}" by (rule star_more)
    then show ?case by simp
  qed
qed

lemma lang_plus_class:
  "w \<in> lang (plus (Class rs)) \<longleftrightarrow> w \<noteq> [] \<and> (\<forall>c \<in> set w. in_class rs c)"
proof (cases w)
  case Nil
  then show ?thesis by (simp add: plus_def)
next
  case (Cons a w')
  have "a # w' \<in> lang (plus (Class rs)) \<longleftrightarrow> w' \<in> lang (deriv a (plus (Class rs)))"
    by (simp only: lang_deriv)
  also have "\<dots> \<longleftrightarrow> in_class rs a \<and> w' \<in> star {[c] | c. in_class rs c}"
    by (simp add: plus_def)
  finally show ?thesis
    using Cons by (simp add: star_class)
qed

lemma star_groups:
  "w \<in> star {f g | g. P g} \<longleftrightarrow> (\<exists>gs. w = concat (map f gs) \<and> (\<forall>g \<in> set gs. P g))"
proof
  assume "w \<in> star {f g | g. P g}"
  then show "\<exists>gs. w = concat (map f gs) \<and> (\<forall>g \<in> set gs. P g)"
  proof (induction rule: star.induct)
    case star_empty
    show ?case by (rule exI [of _ "[]"]) simp
  next
    case (star_more u v)
    then obtain g gs where "u = f g" "P g" "v = concat (map f gs)" "\<forall>g \<in> set gs. P g"
      by blast
    then have "u @ v = concat (map f (g # gs)) \<and> (\<forall>x \<in> set (g # gs). P x)" by simp
    then show ?case by (rule exI)
  qed
next
  assume "\<exists>gs. w = concat (map f gs) \<and> (\<forall>g \<in> set gs. P g)"
  then obtain gs where "w = concat (map f gs)" "\<forall>g \<in> set gs. P g" by blast
  then show "w \<in> star {f g | g. P g}"
  proof (induction gs arbitrary: w)
    case Nil
    then show ?case by (simp add: star_empty)
  next
    case (Cons g gs)
    then have "f g \<in> {f g | g. P g}" and "concat (map f gs) \<in> star {f g | g. P g}" by auto
    then have "f g @ concat (map f gs) \<in> star {f g | g. P g}" by (rule star_more)
    with Cons show ?case by simp
  qed
qed

lemma in_lang_lit: "u \<in> lang (lit p) \<longleftrightarrow> u = p"
  by (simp only: lang_lit singleton_iff)

lemma in_digit_class: "in_class digit_class c \<longleftrightarrow> is_digit c"
  by (simp add: in_class_def digit_class_def is_digit_def)

lemma in_thirdparty_name_class:
  "in_class thirdparty_name_class c \<longleftrightarrow>
     is_alnum c \<or> is_white_space c \<or> c = CHR ''_'' \<or> c = CHR ''.'' \<or> c = CHR ''-''"
  by (auto simp: in_class_def thirdparty_name_class_def space_class_def is_alnum_def
        is_white_space_def is_digit_def)

lemma lang_CatI: "u \<in> lang r \<Longrightarrow> v \<in> lang s \<Longrightarrow> u @ v \<in> lang (Cat r s)"
  by auto

lemma lang_CatE:
  assumes "w \<in> lang (Cat r s)"
  obtains u v where "w = u @ v" and "u \<in> lang r" and "v \<in> lang s"
  using assms by auto

lemma lang_version_groups:
  "w \<in> lang (Rep (Cat (lit ''.'') (plus (Class digit_class)))) \<longleftrightarrow>
     (\<exists>gs. w = concat (map (\<lambda>g. CHR ''.'' # g) gs) \<and>
           (\<forall>g \<in> set gs. g \<noteq> [] \<and> (\<forall>c \<in> set g. is_digit c)))"
proof -
  have "lang (Cat (lit ''.'') (plus (Class digit_class)))
      = {CHR ''.'' # g | g. g \<noteq> [] \<and> (\<forall>c \<in> set g. is_digit c)}"
  proof (intro set_eqI iffI)
    fix x assume "x \<in> lang (Cat (lit ''.'') (plus (Class digit_class)))"
    then obtain u v where "x = u @ v" "u \<in> lang (lit ''.'')" "v \<in> lang (plus (Class digit_class))"
      by (rule lang_CatE)
    then show "x \<in> {CHR ''.'' # g | g. g \<noteq> [] \<and> (\<forall>c \<in> set g. is_digit c)}"
      by (simp add: in_lang_lit lang_plus_class in_digit_class del: lit.simps lang.simps)
  next
    fix x assume "x \<in> {CHR ''.'' # g | g. g \<noteq> [] \<and> (\<forall>c \<in> set g. is_digit c)}"
    then obtain g where x: "x = ''.'' @ g" and "g \<noteq> []" "\<forall>c \<in> set g. is_digit c" by auto
    then have "g \<in> lang (plus (Class digit_class))"
      by (simp add: lang_plus_class in_digit_class)
    moreover have "''.'' \<in> lang (lit ''.'')" by (simp only: in_lang_lit)
    ultimately show "x \<in> lang (Cat (lit ''.'') (plus (Class digit_class)))"
      unfolding x by (intro lang_CatI)
  qed
  then have "lang (Rep (Cat (lit ''.'') (plus (Class digit_class))))
      = star {CHR ''.'' # g | g. g \<noteq> [] \<and> (\<forall>c \<in> set g. is_digit c)}"
    by simp
  then show ?thesis
    by (simp only: star_groups)
qed

lemma lang_thirdparty:
  "s \<in> lang thirdPartySvcRefNameRegex \<longleftrightarrow> thirdparty_reference s"
proof
  assume "s \<in> lang thirdPartySvcRefNameRegex"
  then obtain u1 r1 where s1: "s = u1 @ r1" and u1: "u1 \<in> lang (lit ''thirdparty:'')"
    and "r1 \<in> lang (Cat (plus (Class thirdparty_name_class))
          (Cat (lit ''/'')
          (Cat (Class [(CHR ''v'', CHR ''v''), (CHR ''V'', CHR ''V'')])
          (Cat (plus (Class digit_class))
               (Rep (Cat (lit ''.'') (plus (Class digit_class))))))))"
    unfolding thirdPartySvcRefNameRegex_def by (rule lang_CatE)
  then obtain name r2 where s2: "r1 = name @ r2"
    and name: "name \<in> lang (plus (Class thirdparty_name_class))"
    and "r2 \<in> lang (Cat (lit ''/'')
          (Cat (Class [(CHR ''v'', CHR ''v''), (CHR ''V'', CHR ''V'')])
          (Cat (plus (Class digit_class))
               (Rep (Cat (lit ''.'') (plus (Class digit_class)))))))"
    by (blast elim: lang_CatE)
  then obtain u3 r3 where s3: "r2 = u3 @ r3" and u3: "u3 \<in> lang (lit ''/'')"
    and "r3 \<in> lang (Cat (Class [(CHR ''v'', CHR ''v''), (CHR ''V'', CHR ''V'')])
          (Cat (plus (Class digit_class))
               (Rep (Cat (lit ''.'') (plus (Class digit_class))))))"
    by (blast elim: lang_CatE)
  then obtain u4 r4 where s4: "r3 = u4 @ r4"
    and u4: "u4 \<in> lang (Class [(CHR ''v'', CHR ''v''), (CHR ''V'', CHR ''V'')])"
    and "r4 \<in> lang (Cat (plus (Class digit_class))
               (Rep (Cat (lit ''.'') (plus (Class digit_class)))))"
    by (blast elim: lang_CatE)
  then obtain d tail where s5: "r4 = d @ tail"
    and d: "d \<in> lang (plus (Class digit_class))"
    and tail: "tail \<in> lang (Rep (Cat (lit ''.'') (plus (Class digit_class))))"
    by (blast elim: lang_CatE)
  from u4 obtain v where v: "u4 = [v]" "v = CHR ''v'' \<or> v = CHR ''V''"
    by (auto simp: in_class_def)
  from tail obtain groups where groups: "tail = concat (map (\<lambda>g. CHR ''.'' # g) groups)"
      "\<forall>g \<in> set groups. g \<noteq> [] \<and> (\<forall>c \<in> set g. is_digit c)"
    unfolding lang_version_groups by blast
  from u1 have "u1 = ''thirdparty:''" by (simp only: in_lang_lit)
  moreover from u3 have "u3 = ''/''" by (simp only: in_lang_lit)
  ultimately have "s = ''thirdparty:'' @ name @ ''/'' @ [v] @ d
      @ concat (map (\<lambda>g. CHR ''.'' # g) groups)"
    using s1 s2 s3 s4 s5 v groups by simp
  moreover from name have "name \<noteq> []"
      "\<forall>c \<in> set name. is_alnum c \<or> is_white_space c \<or> c = CHR ''_'' \<or> c = CHR ''.'' \<or> c = CHR ''-''"
    by (simp_all add: lang_plus_class in_thirdparty_name_class)
  moreover from d have "d \<noteq> []" "\<forall>c \<in> set d. is_digit c"
    by (simp_all add: lang_plus_class in_digit_class)
  ultimately show "thirdparty_reference s"
    unfolding thirdparty_reference_def using v(2) groups(2) by blast
next
  assume "thirdparty_reference s"
  then obtain name v d groups where
    s: "s = ''thirdparty:'' @ name @ ''/'' @ [v] @ d @ concat (map (\<lambda>g. CHR ''.'' # g) groups)"
    and name: "name \<noteq> []"
      "\<forall>c \<in> set name. is_alnum c \<or> is_white_space c \<or> c = CHR ''_'' \<or> c = CHR ''.'' \<or> c = CHR ''-''"
    and v: "v = CHR ''v'' \<or> v = CHR ''V''"
    and d: "d \<noteq> []" "\<forall>c \<in> set d. is_digit c"
    and groups: "\<forall>g \<in> set groups. g \<noteq> [] \<and> (\<forall>c \<in> set g. is_digit c)"
    unfolding thirdparty_reference_def by blast
  have "concat (map (\<lambda>g. CHR ''.'' # g) groups)
      \<in> lang (Rep (Cat (lit ''.'') (plus (Class digit_class))))"
    unfolding lang_version_groups using groups by blast
  moreover have "d \<in> lang (plus (Class digit_class))"
    using d by (simp add: lang_plus_class in_digit_class)
  moreover have "[v] \<in> lang (Class [(CHR ''v'', CHR ''v''), (CHR ''V'', CHR ''V'')])"
    using v by (auto simp: in_class_def)
  moreover have "''/'' \<in> lang (lit ''/'')" by (simp only: in_lang_lit)
  moreover have "name \<in> lang (plus (Class thirdparty_name_class))"
    using name by (simp add: lang_plus_class in_thirdparty_name_class)
  moreover have "''thirdparty:'' \<in> lang (lit ''thirdparty:'')" by (simp only: in_lang_lit)
  ultimately show "s \<in> lang thirdPartySvcRefNameRegex"
    unfolding s thirdPartySvcRefNameRegex_def by (intro lang_CatI)
qed

subsection \<open>Endpoints\<close>


lemma yup_number_port_valid:
  "yup_number [Required, MoreThan 1000, LessThan 65535] v = [] \<longleftrightarrow>
     (\<exists>r. v = Some (Finite r) \<and> 1000 < r \<and> r < 65535)"
proof (cases v)
  case None
  then show ?thesis by (simp add: yup_number_def)
next
  case (Some x)
  then show ?thesis by (cases x) (simp_all add: yup_number_def)
qed

lemma one_visibility_iff:
  "(case visibility of None \<Rightarrow> False
    | Some vs \<Rightarrow> length vs = 1 \<and> hd vs = PROJECT_VISIBILITY)
   \<longleftrightarrow> visibility = Some [''Project'']"
proof (cases visibility)
  case None
  then show ?thesis by simp
next
  case (Some vs)
  then show ?thesis
    by (cases vs) (auto simp: PROJECT_VISIBILITY_def)
qed

text \<open>
  C6. A port, in a service object and in a v0.1 endpoint alike, passes every rule of its
  chain exactly when it is a number strictly between 1000 and 65535: 1000 and 65535
  fail, 1001 and 65534 pass.
\<close>

theorem port_strictly_between:
  "(serviceSchema_port v = [] \<longleftrightarrow>
      (\<exists>r. v = Some (Finite r) \<and> 1000 < r \<and> r < 65535)) \<and>
   (endpointSchemaV0D1_port v = [] \<longleftrightarrow>
      (\<exists>r. v = Some (Finite r) \<and> 1000 < r \<and> r < 65535)) \<and>
   serviceSchema_port (Some (Finite 1000)) = [MoreThan 1000] \<and>
   serviceSchema_port (Some (Finite 65535)) = [LessThan 65535] \<and>
   serviceSchema_port (Some (Finite 1001)) = [] \<and>
   serviceSchema_port (Some (Finite 65534)) = [] \<and>
   endpointSchemaV0D1_port (Some (Finite 1000)) = [MoreThan 1000] \<and>
   endpointSchemaV0D1_port (Some (Finite 65535)) = [LessThan 65535] \<and>
   endpointSchemaV0D1_port (Some (Finite 1001)) = [] \<and>
   endpointSchemaV0D1_port (Some (Finite 65534)) = []"
  unfolding serviceSchema_port_def endpointSchemaV0D1_port_def yup_number_port_valid
  by (simp add: yup_number_def)



text \<open>
  C8. The visibility rule reports a violation exactly when the type of the endpoint is
  GRPC, TCP or UDP and networkVisibilities is anything but the one-element list
  ["Project"] (absent, empty, longer, or another element); an endpoint of any other
  type never gets this violation.
\<close>

theorem project_visibility_only_iff:
  "handleResult (yup_default_message (path ctx)) (projectVisibilityOnly visibility ctx) \<noteq> []
   \<longleftrightarrow>
   (\<exists>t. ep_type (parent ctx) = Some t \<and> t \<in> {''GRPC'', ''TCP'', ''UDP''}) \<and>
   visibility \<noteq> Some [''Project'']"
proof -
  have ty: "(case ep_type (parent ctx) of None \<Rightarrow> False
             | Some t \<Rightarrow> t \<in> set PROJECT_ONLY_TYPES)
            \<longleftrightarrow> (\<exists>t. ep_type (parent ctx) = Some t \<and> t \<in> {''GRPC'', ''TCP'', ''UDP''})"
    by (cases "ep_type (parent ctx)") (simp_all add: PROJECT_ONLY_TYPES_def)
  show ?thesis
    unfolding projectVisibilityOnly_def Let_def one_visibility_iff ty
    by simp
qed

lemma project_visibility_only_examples:
  "projectVisibilityOnly (Some [''Public''])
     \<lparr>path = ''endpoints[0].networkVisibilities'', parent = endpoint_of_type ''GRPC'' [''Public'']\<rparr>
     = ValidationError
         ''The endpoints[0] is a type GRPC endpoint and can only have networkVisibility set to Project''"
  "projectVisibilityOnly (Some [''Project''])
     \<lparr>path = ''endpoints[0].networkVisibilities'', parent = endpoint_of_type ''GRPC'' [''Project'']\<rparr>
     = Truthy"
  "projectVisibilityOnly (Some [''Public''])
     \<lparr>path = ''endpoints[0].networkVisibilities'', parent = endpoint_of_type ''REST'' [''Public'']\<rparr>
     = Truthy"
  by (simp_all add: projectVisibilityOnly_def endpoint_of_type_def PROJECT_ONLY_TYPES_def
        PROJECT_VISIBILITY_def erroredEndpoint_def)

subsection \<open>Environment variables\<close>

text \<open>
  C1, as the code has it. The test of either schema reports its violation exactly when
  the entry names no source at all; an entry that names one source or several passes.
  Of the specification's examples, the entry with nothing set is rejected and the entry
  with a value only is accepted.
\<close>

theorem oneOfRequired_at_least_one:
  "(handleResult envVariableSchemaV0D1_message (envVariableSchemaV0D1_oneOfRequired (Some e))
      = (if 1 \<le> sources_present False e then [] else [envVariableSchemaV0D1_message])) \<and>
   (handleResult envVariableSchemaV0D2_message (envVariableSchemaV0D2_oneOfRequired (Some e))
      = (if 1 \<le> sources_present True e then [] else [envVariableSchemaV0D2_message])) \<and>
   handleResult envVariableSchemaV0D1_message
      (envVariableSchemaV0D1_oneOfRequired (Some env_nothing_set))
      = [envVariableSchemaV0D1_message] \<and>
   handleResult envVariableSchemaV0D2_message
      (envVariableSchemaV0D2_oneOfRequired (Some env_nothing_set))
      = [envVariableSchemaV0D2_message] \<and>
   handleResult envVariableSchemaV0D1_message
      (envVariableSchemaV0D1_oneOfRequired (Some env_value_only)) = [] \<and>
   handleResult envVariableSchemaV0D2_message
      (envVariableSchemaV0D2_oneOfRequired (Some env_value_only)) = []"
  by (simp add: envVariableSchemaV0D1_oneOfRequired_def envVariableSchemaV0D2_oneOfRequired_def
        sources_present_def env_nothing_set_def env_value_only_def)

text \<open>
  C1, as the specification states it, fails: the entry with both a value and a
  connectionRef names two sources and still gets no violation from either schema.
\<close>

theorem oneOfRequired_two_sources_accepted:
  "sources_present False env_value_and_connectionRef = 2 \<and>
   sources_present True env_value_and_connectionRef = 2 \<and>
   handleResult envVariableSchemaV0D1_message
      (envVariableSchemaV0D1_oneOfRequired (Some env_value_and_connectionRef)) = [] \<and>
   handleResult envVariableSchemaV0D2_message
      (envVariableSchemaV0D2_oneOfRequired (Some env_value_and_connectionRef)) = []"
  by (simp add: envVariableSchemaV0D1_oneOfRequired_def envVariableSchemaV0D2_oneOfRequired_def
        sources_present_def env_value_and_connectionRef_def)

subsection \<open>Schema files\<close>

text \<open>
  C4. A failure of the existence check is not told apart from a missing file. Whatever
  the file system does, the test of a non-empty schemaFilePath passes when the file is
  there and otherwise reports "Schema file does not exist at the given path ...", the
  same for a check that ran into an I/O error as for a file that is not there. The
  \<^verbatim>\<open>catch\<close> block is never reached, and the message it builds never reported.
\<close>

theorem schemaFileExists_probe_failure_is_not_found:
  "schemaFileExists join fs srcDir (Some v)
     = (if v = [] then Inr Truthy
        else case fs (join srcDir v) of
               Inr True \<Rightarrow> Inr Truthy
             | Inr False \<Rightarrow>
                 Inr (ValidationError (''Schema file does not exist at the given path '' @ v @ ''.''))
             | Inl error \<Rightarrow>
                 Inr (ValidationError (''Schema file does not exist at the given path '' @ v @ ''.''))) \<and>
   runTest (yup_default_message ''endpoints[0].schemaFilePath'')
     (schemaFileExists (\<lambda>d f. d @ ''/'' @ f) (\<lambda>f. Inl ''EACCES: permission denied'') ''src''
        (Some ''openapi.yaml''))
     = Inr [''Schema file does not exist at the given path openapi.yaml.''] \<and>
   runTest (yup_default_message ''endpoints[0].schemaFilePath'')
     (schemaFileExists (\<lambda>d f. d @ ''/'' @ f) (\<lambda>f. Inr False) ''src'' (Some ''openapi.yaml''))
     = Inr [''Schema file does not exist at the given path openapi.yaml.'']"
  by (simp add: schemaFileExists_def fs_existsSync_def Let_def split: sum.split bool.split)

subsection \<open>The error report\<close>

lemma split_on_not_Nil: "split_on c s \<noteq> []"
  by (induction s) auto

lemma split_on_append:
  "c \<notin> set e \<Longrightarrow>
   split_on c (e @ rest) = (e @ hd (split_on c rest)) # tl (split_on c rest)"
  by (induction e) (auto simp: split_on_not_Nil)

lemma split_on_bullets:
  "\<forall>e \<in> set es. c \<notin> set e \<Longrightarrow> c \<notin> set b \<Longrightarrow>
   split_on c (concat (map (\<lambda>e. c # b @ e) es)) = [] # map (\<lambda>e. b @ e) es"
proof (induction es)
  case Nil
  then show ?case by simp
next
  case (Cons e es)
  then have "c \<notin> set (b @ e)" by simp
  then have "split_on c ((b @ e) @ concat (map (\<lambda>e. c # b @ e) es))
      = ((b @ e) @ hd (split_on c (concat (map (\<lambda>e. c # b @ e) es))))
        # tl (split_on c (concat (map (\<lambda>e. c # b @ e) es)))"
    by (rule split_on_append)
  with Cons show ?case by simp
qed

text \<open>
  C5. The report of a failure: with no violations (none recorded, or an empty list) the
  internal-error message ending in the failure converted to a string; with one violation
  the validation-failed message with that violation's message inline; with two or more
  the validation-failed message followed, for each violation in order, by a line break,
  a bullet and the violation's message, so that, messages being free of line breaks, the
  lines after the first are the bulleted messages, one per violation.
\<close>

theorem constructValidationErrorMessage_cases:
  "(err_errors err = None \<or> err_errors err = Some [] \<longrightarrow>
      constructValidationErrorMessage codes err fileType
        = INTERNAL_ERROR codes @ '' Failed to validate '' @ fileType
          @ '', something went wrong:'' @ toString err) \<and>
   (err_errors err = Some [e] \<longrightarrow>
      constructValidationErrorMessage codes err fileType
        = USER_ERROR codes @ '' '' @ fileType @ '' validation failed: '' @ e) \<and>
   (err_errors err = Some es \<and> 2 \<le> length es \<longrightarrow>
      constructValidationErrorMessage codes err fileType
        = (USER_ERROR codes @ '' '' @ fileType @ '' validation failed: '')
          @ concat (map (\<lambda>e. newline # ''- '' @ e) es) \<and>
      ((\<forall>e \<in> set es. newline \<notin> set e) \<longrightarrow>
         split_on newline
           (drop (length (USER_ERROR codes @ '' '' @ fileType @ '' validation failed: ''))
              (constructValidationErrorMessage codes err fileType))
         = [] # map (\<lambda>e. ''- '' @ e) es))"
proof (intro conjI impI)
  assume "err_errors err = None \<or> err_errors err = Some []"
  then show "constructValidationErrorMessage codes err fileType
        = INTERNAL_ERROR codes @ '' Failed to validate '' @ fileType
          @ '', something went wrong:'' @ toString err"
    by (auto simp: constructValidationErrorMessage_def)
next
  assume "err_errors err = Some [e]"
  then show "constructValidationErrorMessage codes err fileType
        = USER_ERROR codes @ '' '' @ fileType @ '' validation failed: '' @ e"
    by (simp add: constructValidationErrorMessage_def)
next
  assume many: "err_errors err = Some es \<and> 2 \<le> length es"
  then have "\<not> length es = 0" and "\<not> length es = 1" by auto
  with many show eq: "constructValidationErrorMessage codes err fileType
        = (USER_ERROR codes @ '' '' @ fileType @ '' validation failed: '')
          @ concat (map (\<lambda>e. newline # ''- '' @ e) es)"
    by (simp only: constructValidationErrorMessage_def Let_def option.case if_False)
  assume "\<forall>e \<in> set es. newline \<notin> set e"
  moreover have "newline \<notin> set ''- ''" by (simp add: newline_def)
  ultimately have lines: "split_on newline (concat (map (\<lambda>e. newline # ''- '' @ e) es))
      = [] # map (\<lambda>e. ''- '' @ e) es"
    by (rule split_on_bullets)
  have drop_header: "drop (length h) (h @ b) = b" for h b :: string
    by simp
  show "split_on newline
           (drop (length (USER_ERROR codes @ '' '' @ fileType @ '' validation failed: ''))
              (constructValidationErrorMessage codes err fileType))
         = [] # map (\<lambda>e. ''- '' @ e) es"
    unfolding eq drop_header by (rule lines)
qed

theorem constructValidationErrorMessage_cases_witness:
  "constructValidationErrorMessage \<lparr>USER_ERROR = ''USER ERROR'', INTERNAL_ERROR = ''INTERNAL ERROR''\<rparr>
     (Error ''boom'') ''component.yaml''
     = ''INTERNAL ERROR Failed to validate component.yaml, something went wrong:Error: boom'' \<and>
   constructValidationErrorMessage \<lparr>USER_ERROR = ''USER ERROR'', INTERNAL_ERROR = ''INTERNAL ERROR''\<rparr>
     (yup_ValidationError [''port is a required field'']) ''component.yaml''
     = ''USER ERROR component.yaml validation failed: port is a required field'' \<and>
   split_on newline
     (drop (length ''USER ERROR component.yaml validation failed: '')
        (constructValidationErrorMessage
           \<lparr>USER_ERROR = ''USER ERROR'', INTERNAL_ERROR = ''INTERNAL ERROR''\<rparr>
           (yup_ValidationError [''a is invalid'', ''b is invalid'', ''c is invalid''])
           ''component.yaml''))
     = [[], ''- a is invalid'', ''- b is invalid'', ''- c is invalid'']"
proof -
  let ?codes = "\<lparr>USER_ERROR = ''USER ERROR'', INTERNAL_ERROR = ''INTERNAL ERROR''\<rparr>"
  let ?es = "[''a is invalid'', ''b is invalid'', ''c is invalid'']"
  have none: "err_errors (Error ''boom'') = None \<or> err_errors (Error ''boom'') = Some []"
    by (simp add: Error_def)
  have one: "err_errors (yup_ValidationError [''port is a required field''])
      = Some [''port is a required field'']"
    by (simp add: yup_ValidationError_def)
  have many: "err_errors (yup_ValidationError ?es) = Some ?es \<and> 2 \<le> length ?es"
    by (simp add: yup_ValidationError_def)
  have clean: "\<forall>e \<in> set ?es. newline \<notin> set e"
    by (simp add: newline_def)
  from constructValidationErrorMessage_cases
         [where err = "Error ''boom''" and codes = ?codes and fileType = "''component.yaml''"]
       none
  have first: "constructValidationErrorMessage ?codes (Error ''boom'') ''component.yaml''
      = INTERNAL_ERROR ?codes @ '' Failed to validate '' @ ''component.yaml''
        @ '', something went wrong:'' @ toString (Error ''boom'')"
    by blast
  from constructValidationErrorMessage_cases
         [where err = "yup_ValidationError [''port is a required field'']" and codes = ?codes
            and fileType = "''component.yaml''" and e = "''port is a required field''"]
       one
  have second: "constructValidationErrorMessage ?codes
        (yup_ValidationError [''port is a required field'']) ''component.yaml''
      = USER_ERROR ?codes @ '' '' @ ''component.yaml'' @ '' validation failed: ''
        @ ''port is a required field''"
    by blast
  from constructValidationErrorMessage_cases
         [where err = "yup_ValidationError ?es" and codes = ?codes
            and fileType = "''component.yaml''" and es = ?es]
       many clean
  have third: "split_on newline
      (drop (length (USER_ERROR ?codes @ '' '' @ ''component.yaml'' @ '' validation failed: ''))
         (constructValidationErrorMessage ?codes (yup_ValidationError ?es) ''component.yaml''))
      = [] # map (\<lambda>e. ''- '' @ e) ?es"
    by blast
  from first have a: "constructValidationErrorMessage ?codes (Error ''boom'') ''component.yaml''
      = ''INTERNAL ERROR Failed to validate component.yaml, something went wrong:Error: boom''"
    by (simp add: toString_def Error_def)
  from second have b: "constructValidationErrorMessage ?codes
        (yup_ValidationError [''port is a required field'']) ''component.yaml''
      = ''USER ERROR component.yaml validation failed: port is a required field''"
    by simp
  from third have c: "split_on newline
      (drop (length ''USER ERROR component.yaml validation failed: '')
         (constructValidationErrorMessage ?codes (yup_ValidationError ?es) ''component.yaml''))
      = [[], ''- a is invalid'', ''- b is invalid'', ''- c is invalid'']"
    by simp
  from a b c show ?thesis by blast
qed

subsection \<open>Dispatch on the schema version\<close>

text \<open>
  C2. A document of schemaVersion 1.2 is not dispatched to any schema: the version
  falls into the default branch, no schema runs, and the caller gets the internal-error
  report of "SchemaVersion must be one of the following values: 1.0, 1.1".
\<close>

theorem schemaVersion_1_2_not_dispatched:
  "validateComponentYaml schemas sourceRootDir doc (JNumber (Finite (12 / 10)))
     = ([], Inl (Error ''SchemaVersion must be one of the following values: 1.0, 1.1'')) \<and>
   validateSourceConfigFile codes types schemas sourceRootDir (COMPONENT_YAML types)
       \<lparr>schemaVersion = JNumber (Finite (12 / 10)), \<dots> = rest\<rparr>
     = ([], Inl (INTERNAL_ERROR codes @ '' Failed to validate '' @ COMPONENT_YAML types
            @ '', something went wrong:Error: SchemaVersion must be one of the following values: 1.0, 1.1''))"
  by (simp add: validateComponentYaml_def validateSourceConfigFile_def
        constructValidationErrorMessage_def Error_def toString_def)

text \<open>
  C3. For a component document whose schemaVersion is neither of the two versions the
  dispatch knows (the numbers 1.0 and 1.1), the dispatch throws at once: the run has
  executed no schema and emitted nothing, the thrown error carries no list of
  violations, and the report is the internal-error message of that error.
\<close>

theorem unsupported_schemaVersion_fatal:
  assumes "version \<noteq> JNumber (Finite 1)" and "version \<noteq> JNumber (Finite (11 / 10))"
  shows "validateComponentYaml schemas sourceRootDir doc version
           = ([], Inl (Error ''SchemaVersion must be one of the following values: 1.0, 1.1'')) \<and>
         err_errors (Error ''SchemaVersion must be one of the following values: 1.0, 1.1'') = None \<and>
         validateSourceConfigFile codes types schemas sourceRootDir (COMPONENT_YAML types)
             \<lparr>schemaVersion = version, \<dots> = rest\<rparr>
           = ([], Inl (INTERNAL_ERROR codes @ '' Failed to validate '' @ COMPONENT_YAML types
                  @ '', something went wrong:Error: SchemaVersion must be one of the following values: 1.0, 1.1''))"
  using assms
  by (simp add: validateComponentYaml_def validateSourceConfigFile_def
        constructValidationErrorMessage_def Error_def toString_def)

theorem unsupported_schemaVersion_fatal_witness:
  "validateComponentYaml (\<lambda>sid dir d. Inr [''never run'']) ''.''
     \<lparr>schemaVersion = JNumber (Finite (13 / 10))\<rparr> (JNumber (Finite (13 / 10)))
     = ([], Inl (Error ''SchemaVersion must be one of the following values: 1.0, 1.1'')) \<and>
   validateSourceConfigFile
       \<lparr>USER_ERROR = ''USER ERROR'', INTERNAL_ERROR = ''INTERNAL ERROR''\<rparr>
       \<lparr>COMPONENT_YAML = ''component.yaml'', COMPONENT_CONFIG_YAML = ''component-config.yaml'',
        ENDPOINT_YAML = ''endpoints.yaml''\<rparr>
       (\<lambda>sid dir d. Inr [''never run'']) ''.'' ''component.yaml''
       \<lparr>schemaVersion = JNumber (Finite (13 / 10))\<rparr>
     = ([], Inl ''INTERNAL ERROR Failed to validate component.yaml, something went wrong:Error: SchemaVersion must be one of the following values: 1.0, 1.1'')"
proof -
  have v1: "JNumber (Finite (13 / 10)) \<noteq> JNumber (Finite 1)" by simp
  have v2: "JNumber (Finite (13 / 10)) \<noteq> JNumber (Finite (11 / 10))" by simp
  note fatal = unsupported_schemaVersion_fatal [OF v1 v2]
  from fatal [where schemas = "\<lambda>sid dir d. Inr [''never run'']" and sourceRootDir = "''.''"
                and doc = "\<lparr>schemaVersion = JNumber (Finite (13 / 10))\<rparr>"]
  have a: "validateComponentYaml (\<lambda>sid dir d. Inr [''never run'']) ''.''
             \<lparr>schemaVersion = JNumber (Finite (13 / 10))\<rparr> (JNumber (Finite (13 / 10)))
      = ([], Inl (Error ''SchemaVersion must be one of the following values: 1.0, 1.1''))"
    by blast
  from fatal [where schemas = "\<lambda>sid dir d. Inr [''never run'']" and sourceRootDir = "''.''"
                and codes = "\<lparr>USER_ERROR = ''USER ERROR'', INTERNAL_ERROR = ''INTERNAL ERROR''\<rparr>"
                and types = "\<lparr>COMPONENT_YAML = ''component.yaml'',
                               COMPONENT_CONFIG_YAML = ''component-config.yaml'',
                               ENDPOINT_YAML = ''endpoints.yaml''\<rparr>"
                and rest = "()" and doc = "\<lparr>schemaVersion = JNumber (Finite (13 / 10))\<rparr>"]
  have b: "validateSourceConfigFile
       \<lparr>USER_ERROR = ''USER ERROR'', INTERNAL_ERROR = ''INTERNAL ERROR''\<rparr>
       \<lparr>COMPONENT_YAML = ''component.yaml'', COMPONENT_CONFIG_YAML = ''component-config.yaml'',
        ENDPOINT_YAML = ''endpoints.yaml''\<rparr>
       (\<lambda>sid dir d. Inr [''never run'']) ''.'' ''component.yaml''
       \<lparr>schemaVersion = JNumber (Finite (13 / 10))\<rparr>
     = ([], Inl ''INTERNAL ERROR Failed to validate component.yaml, something went wrong:Error: SchemaVersion must be one of the following values: 1.0, 1.1'')"
    by simp
  from a b show ?thesis by blast
qed

subsection \<open>Reference classifiers\<close>

lemma in_class_ranges:
  "in_class ranges c
     = list_ex (\<lambda>(lo, hi). (of_char lo :: nat) \<le> of_char c \<and> (of_char c :: nat) \<le> of_char hi) ranges"
  by (simp add: in_class_def less_eq_char_def)

lemma thirdparty_prefix_only:
  assumes "prefix ''thirdparty:'' s"
  shows "\<not> prefix ''choreo:///'' s" and "\<not> prefix ''service:'' s"
proof -
  from assms obtain rest where "s = ''thirdparty:'' @ rest"
    by (auto simp: prefix_def)
  then show "\<not> prefix ''choreo:///'' s" and "\<not> prefix ''service:'' s"
    by simp_all
qed

text \<open>
  C9, as the code has it. On a string that begins with \<open>thirdparty:\<close> both classifiers
  accept exactly the third-party references, whose name may hold any white space the
  pattern's \<^verbatim>\<open>\s\<close> matches, not the space alone. \<open>thirdparty:Stripe API/v2.1\<close> is
  accepted and \<open>thirdparty:Stripe API/2.1\<close> is rejected by both.
\<close>

theorem thirdparty_classifiers_grammar:
  "(prefix ''thirdparty:'' s \<longrightarrow>
      (validateServiceName s ctx = Truthy \<longleftrightarrow> thirdparty_reference s) \<and>
      (validateResourceRef s ctx = Truthy \<longleftrightarrow> thirdparty_reference s)) \<and>
   validateServiceName ''thirdparty:Stripe API/v2.1'' ctx = Truthy \<and>
   validateResourceRef ''thirdparty:Stripe API/v2.1'' ctx = Truthy \<and>
   validateServiceName ''thirdparty:Stripe API/2.1'' ctx
     = ValidationError (thirdparty_message (path ctx)) \<and>
   validateResourceRef ''thirdparty:Stripe API/2.1'' ctx
     = ValidationError (thirdparty_message (path ctx))"
proof (intro conjI impI)
  assume p: "prefix ''thirdparty:'' s"
  have "validateServiceName s ctx = test_or thirdPartySvcRefNameRegex s (thirdparty_message (path ctx))"
    using p thirdparty_prefix_only(1) [OF p] by (simp add: validateServiceName_def)
  then show "validateServiceName s ctx = Truthy \<longleftrightarrow> thirdparty_reference s"
    by (simp add: test_or_def regexp_test_lang lang_thirdparty)
  have "validateResourceRef s ctx = test_or thirdPartySvcRefNameRegex s (thirdparty_message (path ctx))"
    using p thirdparty_prefix_only(2) [OF p] by (simp add: validateResourceRef_def)
  then show "validateResourceRef s ctx = Truthy \<longleftrightarrow> thirdparty_reference s"
    by (simp add: test_or_def regexp_test_lang lang_thirdparty)
next
  have yes: "regexp_test thirdPartySvcRefNameRegex ''thirdparty:Stripe API/v2.1''"
    by (simp add: thirdPartySvcRefNameRegex_def plus_def digit_class_def
          thirdparty_name_class_def space_class_def in_class_ranges)
  have no: "\<not> regexp_test thirdPartySvcRefNameRegex ''thirdparty:Stripe API/2.1''"
    by (simp add: thirdPartySvcRefNameRegex_def plus_def digit_class_def
          thirdparty_name_class_def space_class_def in_class_ranges)
  show "validateServiceName ''thirdparty:Stripe API/v2.1'' ctx = Truthy"
    using yes by (simp add: validateServiceName_def test_or_def)
  show "validateResourceRef ''thirdparty:Stripe API/v2.1'' ctx = Truthy"
    using yes by (simp add: validateResourceRef_def test_or_def)
  show "validateServiceName ''thirdparty:Stripe API/2.1'' ctx
     = ValidationError (thirdparty_message (path ctx))"
    using no by (simp add: validateServiceName_def test_or_def)
  show "validateResourceRef ''thirdparty:Stripe API/2.1'' ctx
     = ValidationError (thirdparty_message (path ctx))"
    using no by (simp add: validateResourceRef_def test_or_def)
qed

theorem thirdparty_classifiers_grammar_witness:
  "prefix ''thirdparty:'' ''thirdparty:Stripe API/v2.1'' \<and>
   validateServiceName ''thirdparty:Stripe API/v2.1''
     \<lparr>path = ''dependencies.serviceReferences[0].name'', parent = ()\<rparr> = Truthy \<and>
   thirdparty_reference ''thirdparty:Stripe API/v2.1''"
proof -
  have p: "prefix ''thirdparty:'' ''thirdparty:Stripe API/v2.1''"
    by simp
  note g = thirdparty_classifiers_grammar
    [where s = "''thirdparty:Stripe API/v2.1''"
       and ctx = "\<lparr>path = ''dependencies.serviceReferences[0].name'', parent = ()\<rparr>"]
  from g have accepted: "validateServiceName ''thirdparty:Stripe API/v2.1''
      \<lparr>path = ''dependencies.serviceReferences[0].name'', parent = ()\<rparr> = Truthy"
    by blast
  from g p accepted have "thirdparty_reference ''thirdparty:Stripe API/v2.1''"
    by blast
  with p accepted show ?thesis by blast
qed

text \<open>
  C9, as the specification states it, fails: a reference whose name holds a tab is
  accepted by both classifiers and is not in the grammar the specification gives.
\<close>

theorem thirdparty_tab_accepted:
  "prefix ''thirdparty:'' thirdparty_with_tab \<and>
   validateServiceName thirdparty_with_tab
     \<lparr>path = ''dependencies.serviceReferences[0].name'', parent = ()\<rparr> = Truthy \<and>
   validateResourceRef thirdparty_with_tab
     \<lparr>path = ''dependencies.connectionReferences[0].resourceRef'', parent = ()\<rparr> = Truthy \<and>
   \<not> regexp_test thirdparty_grammar_of_spec thirdparty_with_tab"
proof -
  have "regexp_test thirdPartySvcRefNameRegex thirdparty_with_tab"
    by (simp add: thirdparty_with_tab_def thirdPartySvcRefNameRegex_def plus_def
          digit_class_def thirdparty_name_class_def space_class_def in_class_ranges)
  moreover have "\<not> regexp_test thirdparty_grammar_of_spec thirdparty_with_tab"
    by (simp add: thirdparty_with_tab_def thirdparty_grammar_of_spec_def plus_def
          digit_class_def in_class_ranges)
  moreover have "prefix ''thirdparty:'' thirdparty_with_tab"
    by (simp add: thirdparty_with_tab_def)
  moreover have "\<not> prefix ''choreo:///'' thirdparty_with_tab"
      and "\<not> prefix ''service:'' thirdparty_with_tab"
    by (simp_all add: thirdparty_with_tab_def)
  ultimately show ?thesis
    by (simp add: validateServiceName_def validateResourceRef_def test_or_def)
qed

text \<open>
  C10. A string that starts with none of \<open>choreo:///\<close>, \<open>thirdparty:\<close> and
  \<open>database:\<close> is never accepted as a service-reference name: the classifier reports
  the violation that only choreo, thirdparty or database types are allowed, also for the
  unprefixed form that the resource-reference classifier accepts.
\<close>

theorem unprefixed_service_name_rejected:
  assumes "\<not> prefix ''choreo:///'' s"
    and "\<not> prefix ''thirdparty:'' s"
    and "\<not> prefix ''database:'' s"
  shows "validateServiceName s ctx
           = ValidationError (path ctx
               @ '' has an invalid service identifier. It can only contain choreo, thirdparty, or database types.'') \<and>
         handleResult (yup_default_message (path ctx)) (validateServiceName s ctx)
           = [path ctx
               @ '' has an invalid service identifier. It can only contain choreo, thirdparty, or database types.''] \<and>
         validateServiceName s ctx \<noteq> Truthy"
  using assms by (simp add: validateServiceName_def)

theorem unprefixed_service_name_rejected_witness:
  "validateResourceRef ''comp/v1''
     \<lparr>path = ''dependencies.connectionReferences[0].resourceRef'', parent = ()\<rparr> = Truthy \<and>
   validateServiceName ''comp/v1''
     \<lparr>path = ''dependencies.serviceReferences[0].name'', parent = ()\<rparr>
     = ValidationError ''dependencies.serviceReferences[0].name has an invalid service identifier. It can only contain choreo, thirdparty, or database types.''"
proof -
  have a: "\<not> prefix ''choreo:///'' ''comp/v1''"
    and b: "\<not> prefix ''thirdparty:'' ''comp/v1''"
    and c: "\<not> prefix ''database:'' ''comp/v1''"
    and d: "\<not> prefix ''service:'' ''comp/v1''"
    by simp_all
  from unprefixed_service_name_rejected [OF a b c,
         where ctx = "\<lparr>path = ''dependencies.serviceReferences[0].name'', parent = ()\<rparr>"]
  have rejected: "validateServiceName ''comp/v1''
     \<lparr>path = ''dependencies.serviceReferences[0].name'', parent = ()\<rparr>
     = ValidationError ''dependencies.serviceReferences[0].name has an invalid service identifier. It can only contain choreo, thirdparty, or database types.''"
    by simp
  have "regexp_test svcRefNameRegex ''comp/v1''"
    by (simp add: svcRefNameRegex_def plus_def opt_def digit_class_def token_class_def
          visibility_regexp_def in_class_ranges)
  with b c d have "validateResourceRef ''comp/v1''
     \<lparr>path = ''dependencies.connectionReferences[0].resourceRef'', parent = ()\<rparr> = Truthy"
    by (simp add: validateResourceRef_def test_or_def)
  with rejected show ?thesis by blast
qed

end
